theory Spec2Isabelle
  imports Complex_Main
begin

section \<open>Python values the model needs\<close>

text \<open>
  The exceptions that the modelled code can raise.  Every raise of the source is a
  branch of the model that returns \<open>Inl\<close> of one of them.
\<close>

datatype error =
    TritonModelAnalyzerException
  | IndexError
  | UnboundLocalError
  | ValueError
  | TypeError

text \<open>
  \<^verbatim>\<open>xs[i]\<close> for an integer index: a negative index counts from the end, and
  Python raises IndexError out of range.
\<close>

definition py_index :: "'a list \<Rightarrow> int \<Rightarrow> error + 'a" where
  "py_index xs i =
     (if 0 \<le> i \<and> i < int (length xs) then Inr (xs ! nat i)
      else if i < 0 \<and> - i \<le> int (length xs) then Inr (xs ! nat (int (length xs) + i))
      else Inl IndexError)"

text \<open>
  \<^verbatim>\<open>xs[-n:]\<close>: the last n elements; the whole list when it has fewer than n, and also
  when n is 0 (\<^verbatim>\<open>xs[-0:]\<close> is \<^verbatim>\<open>xs[0:]\<close>).
\<close>

definition py_slice_neg :: "'a list \<Rightarrow> nat \<Rightarrow> 'a list" where
  "py_slice_neg xs n = (if n = 0 then xs else drop (length xs - n) xs)"

text \<open>
  \<^verbatim>\<open>max(x :: xs)\<close> of a non-empty list: Python keeps the first element and replaces it
  by a later item only when \<^verbatim>\<open>item > best\<close>, so of equal maxima the first one wins.
\<close>

definition py_max :: "('a \<Rightarrow> 'a \<Rightarrow> bool) \<Rightarrow> 'a \<Rightarrow> 'a list \<Rightarrow> 'a" where
  "py_max gt x xs = fold (\<lambda>item best. if gt item best then item else best) xs x"

section \<open>concurrency\_search.py\<close>

subsection \<open>What the module imports\<close>

text \<open>
  \<^verbatim>\<open>concurrency_search.py\<close> imports two constants from \<^verbatim>\<open>model_analyzer.constants\<close> and
  calls three methods of \<^verbatim>\<open>RunConfigMeasurement\<close>: \<^verbatim>\<open>is_passing_constraints\<close>,
  \<^verbatim>\<open>compare_measurements\<close> and the ordering that \<^verbatim>\<open>max\<close> uses.  Neither file is among
  the sources, so the model takes them as parameters, collected in one record; the type
  \<open>'m\<close> is the type of measurements.  Gains are Python floats; the model computes
  with rationals.
\<close>

record 'm externals =
  THROUGHPUT_MINIMUM_GAIN :: rat
  THROUGHPUT_MINIMUM_CONSECUTIVE_CONCURRENCY_TRIES :: nat
  is_passing_constraints :: "'m \<Rightarrow> bool"
  compare_measurements :: "'m \<Rightarrow> 'm \<Rightarrow> rat"
  rcm_gt :: "'m \<Rightarrow> 'm \<Rightarrow> bool"

subsection \<open>The object\<close>

text \<open>
  The fields of a \<^verbatim>\<open>ConcurrencySearch\<close>.  A measurement that perf analyzer did not
  deliver is Python's \<^verbatim>\<open>None\<close>, here \<open>None\<close>; a delivered one is an object, which
  Python takes as true.  The constructor computes the two indices as
  \<^verbatim>\<open>int(log2(...))\<close> of the configured concurrencies; the model starts from the indices.
  Concurrencies are never negative (0, powers of two, and halved sums of those), so
  they are naturals.
\<close>

record 'm concurrency_search =
  min_concurrency_index :: nat
  max_concurrency_index :: nat
  max_binary_search_steps :: nat
  run_config_measurements :: "'m option list"
  concurrencies :: "nat list"
  last_failing_concurrency :: nat
  last_passing_concurrency :: nat

definition init :: "nat \<Rightarrow> nat \<Rightarrow> nat \<Rightarrow> 'm concurrency_search" where
  "init min_index max_index steps =
     \<lparr> min_concurrency_index = min_index,
       max_concurrency_index = max_index,
       max_binary_search_steps = steps,
       run_config_measurements = [],
       concurrencies = [],
       last_failing_concurrency = 0,
       last_passing_concurrency = 0 \<rparr>"

definition add_run_config_measurement ::
  "'m concurrency_search \<Rightarrow> 'm option \<Rightarrow> 'm concurrency_search" where
  "add_run_config_measurement s run_config_measurement =
     s\<lparr> run_config_measurements := run_config_measurements s @ [run_config_measurement] \<rparr>"

subsection \<open>Deciding whether the sweep continues\<close>

definition check_measurement_count :: "'m concurrency_search \<Rightarrow> error + unit" where
  "check_measurement_count s =
     (if length (run_config_measurements s) \<noteq> length (concurrencies s)
      then Inl TritonModelAnalyzerException
      else Inr ())"

definition are_minimum_tries_reached :: "'m externals \<Rightarrow> 'm concurrency_search \<Rightarrow> bool" where
  "are_minimum_tries_reached E s =
     (if length (run_config_measurements s) < THROUGHPUT_MINIMUM_CONSECUTIVE_CONCURRENCY_TRIES E
      then False
      else True)"

text \<open>
  \<^verbatim>\<open>_get_best_rcm\<close>: the entries of the last N measurements that are not \<^verbatim>\<open>None\<close>, and
  their maximum, or \<^verbatim>\<open>None\<close> when there is none.
\<close>

definition pruned_rcms :: "'m externals \<Rightarrow> 'm concurrency_search \<Rightarrow> 'm list" where
  "pruned_rcms E s =
     List.map_filter (\<lambda>rcm. rcm)
       (py_slice_neg (run_config_measurements s)
          (THROUGHPUT_MINIMUM_CONSECUTIVE_CONCURRENCY_TRIES E))"

definition get_best_rcm :: "'m externals \<Rightarrow> 'm concurrency_search \<Rightarrow> 'm option" where
  "get_best_rcm E s =
     (case pruned_rcms E s of
        [] \<Rightarrow> None
      | rcm # rcms \<Rightarrow> Some (py_max (rcm_gt E) rcm rcms))"

text \<open>
  The if-chain of \<^verbatim>\<open>_calculate_gain\<close> on its two endpoints \<^verbatim>\<open>first_rcm\<close> and
  \<^verbatim>\<open>best_rcm\<close>, in the source's order.
\<close>

fun gain_of_endpoints :: "'m externals \<Rightarrow> 'm option \<Rightarrow> 'm option \<Rightarrow> rat" where
  "gain_of_endpoints E None None = 0"
| "gain_of_endpoints E None (Some best_rcm) = 1"
| "gain_of_endpoints E (Some first_rcm) None = - 1"
| "gain_of_endpoints E (Some first_rcm) (Some best_rcm) =
     compare_measurements E first_rcm best_rcm"

definition first_rcm_of :: "'m externals \<Rightarrow> 'm concurrency_search \<Rightarrow> error + 'm option" where
  "first_rcm_of E s =
     py_index (run_config_measurements s)
       (- int (THROUGHPUT_MINIMUM_CONSECUTIVE_CONCURRENCY_TRIES E))"

definition calculate_gain :: "'m externals \<Rightarrow> 'm concurrency_search \<Rightarrow> error + rat" where
  "calculate_gain E s =
     (case first_rcm_of E s of
        Inl e \<Rightarrow> Inl e
      | Inr first_rcm \<Rightarrow> Inr (gain_of_endpoints E first_rcm (get_best_rcm E s)))"

definition has_objective_gain_saturated ::
  "'m externals \<Rightarrow> 'm concurrency_search \<Rightarrow> error + bool" where
  "has_objective_gain_saturated E s =
     (case calculate_gain E s of
        Inl e \<Rightarrow> Inl e
      | Inr gain \<Rightarrow> Inr (gain < THROUGHPUT_MINIMUM_GAIN E))"

definition should_continue_concurrency_sweep ::
  "'m externals \<Rightarrow> 'm concurrency_search \<Rightarrow> error + bool" where
  "should_continue_concurrency_sweep E s =
     (case check_measurement_count s of
        Inl e \<Rightarrow> Inl e
      | Inr _ \<Rightarrow>
          if \<not> are_minimum_tries_reached E s then Inr True
          else (case has_objective_gain_saturated E s of
                  Inl e \<Rightarrow> Inl e
                | Inr saturated \<Rightarrow> Inr (\<not> saturated)))"

subsection \<open>Finding the constraint boundary\<close>

definition at_constraint_failure_boundary ::
  "'m externals \<Rightarrow> 'm concurrency_search \<Rightarrow> int \<Rightarrow> error + bool" where
  "at_constraint_failure_boundary E s index =
     (case py_index (run_config_measurements s) index of
        Inl e \<Rightarrow> Inl e
      | Inr None \<Rightarrow> Inr False
      | Inr (Some later) \<Rightarrow>
          (case py_index (run_config_measurements s) (index - 1) of
             Inl e \<Rightarrow> Inl e
           | Inr None \<Rightarrow> Inr False
           | Inr (Some earlier) \<Rightarrow>
               Inr (\<not> is_passing_constraints E later \<and> is_passing_constraints E earlier)))"

text \<open>
  The \<^verbatim>\<open>for\<close> loop of \<^verbatim>\<open>_was_constraint_violated\<close> over the indices it is given.  It
  is left at the first index that is at a boundary; when it runs out, the loop variable
  \<^verbatim>\<open>i\<close> keeps the last index it had, or stays unbound when the loop had no index at all.
\<close>

datatype scan = Boundary_At nat | No_Boundary "nat option"

fun scan_for_boundary ::
  "'m externals \<Rightarrow> 'm concurrency_search \<Rightarrow> nat option \<Rightarrow> nat list \<Rightarrow> error + scan" where
  "scan_for_boundary E s i [] = Inr (No_Boundary i)"
| "scan_for_boundary E s i (j # js) =
     (case at_constraint_failure_boundary E s (int j) of
        Inl e \<Rightarrow> Inl e
      | Inr True \<Rightarrow> Inr (Boundary_At j)
      | Inr False \<Rightarrow> scan_for_boundary E s (Some j) js)"

text \<open>
  \<^verbatim>\<open>_was_constraint_violated\<close>.  \<^verbatim>\<open>range(len(measurements) - 1, 1, -1)\<close> counts from
  the last index down to 2.  The fallback reads the loop variable \<^verbatim>\<open>i\<close> after the
  loop: Python raises UnboundLocalError when the loop never ran.
\<close>

definition was_constraint_violated ::
  "'m externals \<Rightarrow> 'm concurrency_search \<Rightarrow> error + (bool \<times> 'm concurrency_search)" where
  "was_constraint_violated E s =
     (case scan_for_boundary E s None (rev [2 ..< length (run_config_measurements s)]) of
        Inl e \<Rightarrow> Inl e
      | Inr (Boundary_At i) \<Rightarrow>
          (case py_index (concurrencies s) (int i) of
             Inl e \<Rightarrow> Inl e
           | Inr failing_c \<Rightarrow>
               (case py_index (concurrencies s) (int i - 1) of
                  Inl e \<Rightarrow> Inl e
                | Inr passing_c \<Rightarrow>
                    Inr (True, s\<lparr> last_failing_concurrency := failing_c,
                                   last_passing_concurrency := passing_c \<rparr>)))
      | Inr (No_Boundary i) \<Rightarrow>
          (case py_index (run_config_measurements s) 0 of
             Inl e \<Rightarrow> Inl e
           | Inr None \<Rightarrow> Inr (False, s)
           | Inr (Some rcm) \<Rightarrow>
               if \<not> is_passing_constraints E rcm then
                 (case i of
                    None \<Rightarrow> Inl UnboundLocalError
                  | Some i \<Rightarrow>
                      (case py_index (concurrencies s) (int i) of
                         Inl e \<Rightarrow> Inl e
                       | Inr failing_c \<Rightarrow>
                           Inr (True, s\<lparr> last_failing_concurrency := failing_c,
                                          last_passing_concurrency := 0 \<rparr>)))
               else Inr (False, s)))"

subsection \<open>The binary search\<close>

text \<open>
  \<^verbatim>\<open>_determine_next_binary_concurrency\<close>.  \<^verbatim>\<open>int((a + b) / 2)\<close> of two naturals is
  their sum halved and rounded down (the float division is exact for sums below
  2 to the power 53).
\<close>

definition determine_next_binary_concurrency ::
  "'m externals \<Rightarrow> 'm concurrency_search \<Rightarrow> error + (nat \<times> 'm concurrency_search)" where
  "determine_next_binary_concurrency E s =
     (case py_index (run_config_measurements s) (- 1) of
        Inl e \<Rightarrow> Inl e
      | Inr None \<Rightarrow> Inr (0, s)
      | Inr (Some rcm) \<Rightarrow>
          (case py_index (concurrencies s) (- 1) of
             Inl e \<Rightarrow> Inl e
           | Inr c \<Rightarrow>
               if is_passing_constraints E rcm then
                 Inr ((last_failing_concurrency s + c) div 2,
                      s\<lparr> last_passing_concurrency := c \<rparr>)
               else
                 Inr ((last_passing_concurrency s + c) div 2,
                      s\<lparr> last_failing_concurrency := c \<rparr>)))"

subsection \<open>The generator\<close>

text \<open>
  \<^verbatim>\<open>search_concurrencies\<close> is a generator: it runs to its next \<^verbatim>\<open>yield\<close>, hands the
  concurrency to the caller and is suspended there.  The model makes the place where
  it is suspended explicit: before the sweep's iteration for the exponent \<open>i\<close>, in
  the binary search with \<open>n\<close> iterations of its loop left, or finished.  Resuming
  it gives the next concurrency, the end of the iteration, or an exception.
\<close>

datatype position = Sweep nat | Binary nat | Finished

datatype outcome = Yield nat | StopIteration | Raise error

text \<open>
  The loop of \<^verbatim>\<open>_perform_binary_concurrency_search\<close> with \<open>n\<close> iterations left.  An
  iteration whose concurrency equals the last one yields nothing and goes on to the
  next iteration.
\<close>

fun binary_loop ::
  "'m externals \<Rightarrow> 'm concurrency_search \<Rightarrow> nat \<Rightarrow>
     outcome \<times> position \<times> 'm concurrency_search" where
  "binary_loop E s 0 = (StopIteration, Finished, s)"
| "binary_loop E s (Suc n) =
     (case determine_next_binary_concurrency E s of
        Inl e \<Rightarrow> (Raise e, Finished, s)
      | Inr (concurrency, s') \<Rightarrow>
          (case py_index (concurrencies s') (- 1) of
             Inl e \<Rightarrow> (Raise e, Finished, s')
           | Inr c \<Rightarrow>
               if concurrency \<noteq> c then
                 (Yield concurrency, Binary n,
                  s'\<lparr> concurrencies := concurrencies s' @ [concurrency] \<rparr>)
               else binary_loop E s' n))"

text \<open>
  \<^verbatim>\<open>_perform_binary_concurrency_search\<close> from its start: the failing concurrency is
  appended to the list without being yielded, then the loop runs.
\<close>

definition perform_binary_concurrency_search ::
  "'m externals \<Rightarrow> 'm concurrency_search \<Rightarrow>
     outcome \<times> position \<times> 'm concurrency_search" where
  "perform_binary_concurrency_search E s =
     binary_loop E
       (s\<lparr> concurrencies := concurrencies s @ [last_failing_concurrency s] \<rparr>)
       (max_binary_search_steps s)"

text \<open>What \<^verbatim>\<open>search_concurrencies\<close> does once the sweep has returned.\<close>

definition after_sweep ::
  "'m externals \<Rightarrow> 'm concurrency_search \<Rightarrow>
     outcome \<times> position \<times> 'm concurrency_search" where
  "after_sweep E s =
     (case was_constraint_violated E s of
        Inl e \<Rightarrow> (Raise e, Finished, s)
      | Inr (True, s') \<Rightarrow> perform_binary_concurrency_search E s'
      | Inr (False, s') \<Rightarrow> (StopIteration, Finished, s'))"

text \<open>
  Resuming the generator.  In the sweep, the loop runs over
  \<^verbatim>\<open>range(min_index, max_index + 1)\<close>: an iteration either appends and yields
  \<^verbatim>\<open>2**i\<close>, or returns from the sweep.
\<close>

fun resume ::
  "'m externals \<Rightarrow> position \<Rightarrow> 'm concurrency_search \<Rightarrow>
     outcome \<times> position \<times> 'm concurrency_search" where
  "resume E (Sweep i) s =
     (if i < max_concurrency_index s + 1 then
        (case should_continue_concurrency_sweep E s of
           Inl e \<Rightarrow> (Raise e, Finished, s)
         | Inr True \<Rightarrow>
             (Yield (2 ^ i), Sweep (i + 1), s\<lparr> concurrencies := concurrencies s @ [2 ^ i] \<rparr>)
         | Inr False \<Rightarrow> after_sweep E s)
      else after_sweep E s)"
| "resume E (Binary n) s = binary_loop E s n"
| "resume E Finished s = (StopIteration, Finished, s)"

subsection \<open>The caller's loop\<close>

text \<open>
  The generator is driven as \<^verbatim>\<open>_binary_search_over_top_results\<close> drives it: the caller
  takes a concurrency, measures it, and adds the measurement before it asks for the
  next one.  The measurements the caller will add are given as a list, in order; when
  the list is used up the generator stays suspended at its last \<^verbatim>\<open>yield\<close>.  A run
  records the concurrencies it was handed, how it ended, and the object at the end.
\<close>

datatype ending = Exhausted | Awaiting_Measurement | Raised error

record 'm run =
  proposals :: "nat list"
  ending :: ending
  final :: "'m concurrency_search"

fun drive ::
  "'m externals \<Rightarrow> position \<Rightarrow> 'm concurrency_search \<Rightarrow> 'm option list \<Rightarrow> 'm run" where
  "drive E pos s [] =
     (case resume E pos s of
        (Yield c, pos', s') \<Rightarrow> \<lparr> proposals = [c], ending = Awaiting_Measurement, final = s' \<rparr>
      | (StopIteration, pos', s') \<Rightarrow> \<lparr> proposals = [], ending = Exhausted, final = s' \<rparr>
      | (Raise e, pos', s') \<Rightarrow> \<lparr> proposals = [], ending = Raised e, final = s' \<rparr>)"
| "drive E pos s (m # ms) =
     (case resume E pos s of
        (Yield c, pos', s') \<Rightarrow>
          (let r = drive E pos' (add_run_config_measurement s' m) ms
           in r\<lparr> proposals := c # proposals r \<rparr>)
      | (StopIteration, pos', s') \<Rightarrow> \<lparr> proposals = [], ending = Exhausted, final = s' \<rparr>
      | (Raise e, pos', s') \<Rightarrow> \<lparr> proposals = [], ending = Raised e, final = s' \<rparr>)"

definition search_concurrencies ::
  "'m externals \<Rightarrow> 'm concurrency_search \<Rightarrow> 'm option list \<Rightarrow> 'm run" where
  "search_concurrencies E s measurements = drive E (Sweep (min_concurrency_index s)) s measurements"

text \<open>
  How many concurrencies a generator suspended at a position can still yield at most:
  one for every exponent left in the sweep and one for every step of the binary search.
\<close>

fun proposals_left :: "position \<Rightarrow> 'm concurrency_search \<Rightarrow> nat" where
  "proposals_left (Sweep i) s = (max_concurrency_index s + 1 - i) + max_binary_search_steps s"
| "proposals_left (Binary n) s = n"
| "proposals_left Finished s = 0"

subsection \<open>A measurement with one objective\<close>

text \<open>
  Modelled from the spec: \<^verbatim>\<open>RunConfigMeasurement\<close> (run\_config\_measurement.py) and
  \<^verbatim>\<open>model_analyzer.constants\<close> are not among the sources.  The spec gives a measurement
  a constraint predicate, an order, and a \<^verbatim>\<open>compare_measurements\<close> that returns a
  normalized fractional gain, positive when the second measurement is the better one.
  The measurements of the examples have one objective, the throughput, and the gain of
  the second over the first is their difference divided by the mean of the two, which
  is how the repository's measurement class normalizes a difference.  The constants are
  those of the spec's examples, \<^verbatim>\<open>MIN_CONSECUTIVE_TRIES = 4\<close> and \<^verbatim>\<open>MIN_GAIN = 0.05\<close>.
  No example below compares two throughputs of 0, where Python's division raises.
\<close>

record rcm =
  throughput :: rat
  passes_constraints :: bool

definition fractional_gain :: "rcm \<Rightarrow> rcm \<Rightarrow> rat" where
  "fractional_gain first_rcm best_rcm =
     (throughput best_rcm - throughput first_rcm)
       / ((throughput first_rcm + throughput best_rcm) / 2)"

definition throughput_externals :: "rcm externals" where
  "throughput_externals =
     \<lparr> THROUGHPUT_MINIMUM_GAIN = 5 / 100,
       THROUGHPUT_MINIMUM_CONSECUTIVE_CONCURRENCY_TRIES = 4,
       is_passing_constraints = passes_constraints,
       compare_measurements = fractional_gain,
       rcm_gt = (\<lambda>a b. throughput b < throughput a) \<rparr>"

text \<open>A delivered measurement that passes its constraints, with the given throughput.\<close>

definition passing :: "rat \<Rightarrow> rcm option" where
  "passing t = Some \<lparr> throughput = t, passes_constraints = True \<rparr>"

definition failing :: "rat \<Rightarrow> rcm option" where
  "failing t = Some \<lparr> throughput = t, passes_constraints = False \<rparr>"

section \<open>brute\_plus\_binary\_parameter\_search\_run\_config\_generator.py\<close>

text \<open>
  Of a \<^verbatim>\<open>ModelProfileSpec\<close> the generator reads \<^verbatim>\<open>model_config_parameters()\<close> only: a
  dictionary or \<^verbatim>\<open>None\<close>.  Python takes \<^verbatim>\<open>None\<close> and the empty dictionary as false.
\<close>

record ('k, 'v) model_profile_spec =
  model_config_parameters :: "('k \<times> 'v) list option"

definition specifies_parameters :: "('k, 'v) model_profile_spec \<Rightarrow> bool" where
  "specifies_parameters model =
     (case model_config_parameters model of None \<Rightarrow> False | Some d \<Rightarrow> d \<noteq> [])"

text \<open>\<^verbatim>\<open>_is_automatic_search_mode\<close>: the loop returns at the first model with parameters.\<close>

fun is_automatic_search_mode :: "('k, 'v) model_profile_spec list \<Rightarrow> bool" where
  "is_automatic_search_mode [] = True"
| "is_automatic_search_mode (model # models) =
     (if specifies_parameters model then False else is_automatic_search_mode models)"

text \<open>
  \<^verbatim>\<open>get_configs\<close> yields from two generators in turn.  What each of them yields in a
  run is given as a list: \<open>brute_search\<close> for \<^verbatim>\<open>_execute_brute_search()\<close>, whose
  generator class is not among the sources, and \<open>binary_search\<close> for
  \<^verbatim>\<open>_binary_search_over_top_results()\<close>, which depends on the results of the first
  phase.  Each yielded configuration is tagged with the phase that yielded it.
\<close>

datatype phase = Brute_Search | Binary_Search

definition get_configs ::
  "('k, 'v) model_profile_spec list \<Rightarrow> 'c list \<Rightarrow> 'c list \<Rightarrow> (phase \<times> 'c) list" where
  "get_configs models brute_search binary_search =
     map (Pair Brute_Search) brute_search @
     (if is_automatic_search_mode models then map (Pair Binary_Search) binary_search else [])"

section \<open>config\_range\_numeric.py\<close>

subsection \<open>Python values, strings and integers\<close>

text \<open>
  The values a configuration field is set to: strings, integers, booleans, \<^verbatim>\<open>None\<close>,
  lists and dictionaries (floats are left out).  A dictionary is the list of its items
  in insertion order; its keys are distinct.
\<close>

datatype pyval =
    PyStr string
  | PyInt int
  | PyBool bool
  | PyNone
  | PyList "pyval list"
  | PyDict "(pyval \<times> pyval) list"

text \<open>\<^verbatim>\<open>s.split(sep)\<close> for a separator of one character.\<close>

fun split_on :: "char \<Rightarrow> string \<Rightarrow> string list" where
  "split_on sep [] = [[]]"
| "split_on sep (c # cs) =
     (if c = sep then [] # split_on sep cs
      else (case split_on sep cs of
              [] \<Rightarrow> [[c]]
            | w # ws \<Rightarrow> (c # w) # ws))"

text \<open>
  \<^verbatim>\<open>int(s)\<close> of a string: surrounding whitespace is dropped, a sign may come first, and
  the rest must be decimal digits, where single underscores may stand between digits.
  Anything else raises ValueError.  A character of the model is a code point below
  256; of these Python takes as whitespace the tab, the line and page breaks (9 to 13),
  the separators 28 to 31, the space, U+0085 and U+00A0, and as decimal digits only
  0 to 9.
\<close>

definition is_space :: "char \<Rightarrow> bool" where
  "is_space c =
     (c \<in> set [CHR 0x09, CHR 0x0A, CHR 0x0B, CHR 0x0C, CHR 0x0D,
                CHR 0x1C, CHR 0x1D, CHR 0x1E, CHR 0x1F, CHR '' '', CHR 0x85, CHR 0xA0])"

definition strip :: "string \<Rightarrow> string" where
  "strip s = rev (dropWhile is_space (rev (dropWhile is_space s)))"

definition digit_of :: "char \<Rightarrow> nat option" where
  "digit_of c =
     (let n = (of_char c :: nat)
      in if of_char CHR ''0'' \<le> n \<and> n \<le> of_char CHR ''9'' then Some (n - of_char CHR ''0'')
         else None)"

text \<open>
  The digits of a literal, with the value read so far; \<open>after_digit\<close> says that the
  last character was a digit, so that an underscore may follow.
\<close>

fun read_digits :: "nat \<Rightarrow> bool \<Rightarrow> string \<Rightarrow> nat option" where
  "read_digits acc after_digit [] = (if after_digit then Some acc else None)"
| "read_digits acc after_digit (c # cs) =
     (if c = CHR ''_'' then (if after_digit then read_digits acc False cs else None)
      else (case digit_of c of
              None \<Rightarrow> None
            | Some d \<Rightarrow> read_digits (10 * acc + d) True cs))"

definition int_of_string :: "string \<Rightarrow> error + int" where
  "int_of_string s =
     (case strip s of
        [] \<Rightarrow> Inl ValueError
      | c # cs \<Rightarrow>
          if c = CHR ''-'' then
            (case read_digits 0 False cs of None \<Rightarrow> Inl ValueError | Some n \<Rightarrow> Inr (- int n))
          else if c = CHR ''+'' then
            (case read_digits 0 False cs of None \<Rightarrow> Inl ValueError | Some n \<Rightarrow> Inr (int n))
          else
            (case read_digits 0 False (c # cs) of None \<Rightarrow> Inl ValueError | Some n \<Rightarrow> Inr (int n)))"

text \<open>\<^verbatim>\<open>int(v)\<close>: of \<^verbatim>\<open>None\<close>, a list or a dictionary it raises TypeError.\<close>

fun py_int :: "pyval \<Rightarrow> error + int" where
  "py_int (PyInt n) = Inr n"
| "py_int (PyBool b) = Inr (if b then 1 else 0)"
| "py_int (PyStr s) = int_of_string s"
| "py_int PyNone = Inl TypeError"
| "py_int (PyList _) = Inl TypeError"
| "py_int (PyDict _) = Inl TypeError"

text \<open>\<^verbatim>\<open>str(n)\<close> of an integer, as an f-string writes it.\<close>

fun string_of_nat :: "nat \<Rightarrow> string" where
  "string_of_nat n =
     (if n < 10 then [''0123456789'' ! n]
      else string_of_nat (n div 10) @ [''0123456789'' ! (n mod 10)])"

definition string_of_int :: "int \<Rightarrow> string" where
  "string_of_int i = (if i < 0 then CHR ''-'' # string_of_nat (nat (- i)) else string_of_nat (nat i))"

subsection \<open>The field\<close>

text \<open>
  A \<^verbatim>\<open>ConfigStatus\<close> carries a status and, on failure, a message; the model keeps which
  of the messages of \<^verbatim>\<open>set_value\<close> it is instead of its text.
\<close>

datatype failure =
    String_Without_Colon
  | String_Not_Start_Stop_Step
  | Start_Greater_Than_Stop
  | Dictionary_Keys
  | Failed_To_Set
  | Should_Be_A_List

datatype config_status = CONFIG_PARSER_SUCCESS | CONFIG_PARSER_FAILURE failure

text \<open>
  The fields of a \<^verbatim>\<open>ConfigRangeNumeric\<close> that \<^verbatim>\<open>set_value\<close> uses: the element type (a
  conversion such as \<^verbatim>\<open>int\<close>), the preprocessing function and the validator given to
  the constructor, and the stored value.
\<close>

record config_range_numeric =
  element_type :: "pyval \<Rightarrow> error + pyval"
  preprocess :: "(pyval \<Rightarrow> pyval) option"
  validator :: "pyval \<Rightarrow> config_status"
  stored :: pyval

text \<open>The validator that the constructor installs when it is given none.\<close>

fun default_validator :: "pyval \<Rightarrow> config_status" where
  "default_validator (PyList _) = CONFIG_PARSER_SUCCESS"
| "default_validator _ = CONFIG_PARSER_FAILURE Should_Be_A_List"

definition int_type :: "pyval \<Rightarrow> error + pyval" where
  "int_type v = (case py_int v of Inl e \<Rightarrow> Inl e | Inr n \<Rightarrow> Inr (PyInt n))"

definition new_config_range_numeric :: "(pyval \<Rightarrow> error + pyval) \<Rightarrow> config_range_numeric" where
  "new_config_range_numeric ty =
     \<lparr> element_type = ty, preprocess = None, validator = default_validator, stored = PyList [] \<rparr>"

text \<open>
  Modelled from the spec: \<^verbatim>\<open>ConfigValue.set_value\<close>, the method of the base class that
  \<^verbatim>\<open>set_value\<close> ends with, is not among the sources (config\_value.py).  As the spec
  has the normalizer return a status for every list it stores, the base method is taken
  to preprocess the value, to ask the validator, and to store the value when the
  validator accepts it.
\<close>

definition config_value_set_value ::
  "config_range_numeric \<Rightarrow> pyval \<Rightarrow> config_status \<times> config_range_numeric" where
  "config_value_set_value self v =
     (let v' = (case preprocess self of None \<Rightarrow> v | Some f \<Rightarrow> f v);
          st = validator self v'
      in (st, if st = CONFIG_PARSER_SUCCESS then self\<lparr> stored := v' \<rparr> else self))"

text \<open>
  The branch of \<^verbatim>\<open>set_value\<close> for a dictionary: \<^verbatim>\<open>len(value)\<close> and the \<^verbatim>\<open>in\<close> tests,
  the three conversions in the source's order, and the comparison.  It gives the new
  value, or the status that \<^verbatim>\<open>set_value\<close> returns at once.
\<close>

definition range_of_dict :: "(pyval \<times> pyval) list \<Rightarrow> error + (config_status + pyval)" where
  "range_of_dict d =
     (let has = (\<lambda>k. map_of d (PyStr k) \<noteq> None);
          two_key_condition = (length d = 2 \<and> has ''start'' \<and> has ''stop'');
          three_key_condition = (length d = 3 \<and> has ''start'' \<and> has ''stop'' \<and> has ''step'')
      in if two_key_condition \<or> three_key_condition then
           (case py_int (the (map_of d (PyStr ''start''))) of
              Inl e \<Rightarrow> Inl e
            | Inr start \<Rightarrow>
                (case py_int (the (map_of d (PyStr ''stop''))) of
                   Inl e \<Rightarrow> Inl e
                 | Inr stop \<Rightarrow>
                     (case (if \<not> has ''step'' then Inr 1
                            else py_int (the (map_of d (PyStr ''step'')))) of
                        Inl e \<Rightarrow> Inl e
                      | Inr step \<Rightarrow>
                          if start > stop
                          then Inr (Inl (CONFIG_PARSER_FAILURE Start_Greater_Than_Stop))
                          else Inr (Inr (PyList [PyStr (string_of_int start @ '':'' @
                                                    string_of_int stop @ '':'' @
                                                    string_of_int step)])))))
         else Inr (Inl (CONFIG_PARSER_FAILURE Dictionary_Keys)))"

text \<open>
  The body of the \<^verbatim>\<open>try\<close> block after the string has been split: the dictionary, list
  and scalar branches.
\<close>

fun new_value_of :: "config_range_numeric \<Rightarrow> pyval \<Rightarrow> error + (config_status + pyval)" where
  "new_value_of self (PyDict d) = range_of_dict d"
| "new_value_of self (PyList vs) = Inr (Inr (PyList vs))"
| "new_value_of self v =
     (case element_type self v of Inl e \<Rightarrow> Inl e | Inr x \<Rightarrow> Inr (Inr (PyList [x])))"

text \<open>
  The string branch: a string without a colon is refused; otherwise the stored value
  is emptied and the string is split into a dictionary of two or three parts.
\<close>

definition split_range_string ::
  "config_range_numeric \<Rightarrow> string \<Rightarrow> (config_status \<times> config_range_numeric) + (pyval \<times> config_range_numeric)" where
  "split_range_string self s =
     (if CHR '':'' \<notin> set s then Inl (CONFIG_PARSER_FAILURE String_Without_Colon, self)
      else
        (let self' = self\<lparr> stored := PyList [] \<rparr> in
         case split_on CHR '':'' s of
           [a, b] \<Rightarrow> Inr (PyDict [(PyStr ''start'', PyStr a), (PyStr ''stop'', PyStr b), (PyStr ''step'', PyInt 1)], self')
         | [a, b, c] \<Rightarrow> Inr (PyDict [(PyStr ''start'', PyStr a), (PyStr ''stop'', PyStr b), (PyStr ''step'', PyStr c)], self')
         | _ \<Rightarrow> Inl (CONFIG_PARSER_FAILURE String_Not_Start_Stop_Step, self')))"

text \<open>
  \<^verbatim>\<open>set_value\<close>.  A ValueError raised in the \<^verbatim>\<open>try\<close> block becomes a failure status;
  any other exception leaves the method.
\<close>

definition set_value ::
  "config_range_numeric \<Rightarrow> pyval \<Rightarrow> error + (config_status \<times> config_range_numeric)" where
  "set_value self v =
     (case (case v of PyStr s \<Rightarrow> split_range_string self s | _ \<Rightarrow> Inr (v, self)) of
        Inl returned \<Rightarrow> Inr returned
      | Inr (v', self') \<Rightarrow>
          (case new_value_of self' v' of
             Inl ValueError \<Rightarrow> Inr (CONFIG_PARSER_FAILURE Failed_To_Set, self')
           | Inl e \<Rightarrow> Inl e
           | Inr (Inl st) \<Rightarrow> Inr (st, self')
           | Inr (Inr new_value) \<Rightarrow> Inr (config_value_set_value self' new_value)))"

section \<open>Properties\<close>

subsection \<open>Indexing, slicing and the maximum\<close>






subsection \<open>The gain and its two endpoints\<close>









subsection \<open>The measurement count\<close>

text \<open>
  Claim C5.  When the sweep is about to decide whether to go on (an exponent of its
  range is left) and the number of measurements differs from the number of
  concurrencies, the decision raises TritonModelAnalyzerException, the generator ends
  with that exception without yielding, resuming it again only ends the iteration, and
  a caller that takes concurrencies from it gets none, whatever it would feed back.
\<close>

theorem count_mismatch_raises:
  assumes "length (run_config_measurements s) \<noteq> length (concurrencies s)"
    and "i \<le> max_concurrency_index s"
  shows "should_continue_concurrency_sweep E s = Inl TritonModelAnalyzerException
       \<and> resume E (Sweep i) s = (Raise TritonModelAnalyzerException, Finished, s)
       \<and> resume E Finished s = (StopIteration, Finished, s)
       \<and> drive E (Sweep i) s measurements =
           \<lparr> proposals = [], ending = Raised TritonModelAnalyzerException, final = s \<rparr>"
proof -
  have a: "should_continue_concurrency_sweep E s = Inl TritonModelAnalyzerException"
    using assms(1) by (simp add: should_continue_concurrency_sweep_def check_measurement_count_def)
  have b: "resume E (Sweep i) s = (Raise TritonModelAnalyzerException, Finished, s)"
    using assms(2) a by simp
  have c: "drive E (Sweep i) s measurements =
           \<lparr> proposals = [], ending = Raised TritonModelAnalyzerException, final = s \<rparr>"
    using b by (cases measurements) simp_all
  show ?thesis using a b c by simp
qed

text \<open>Two measurements were added for one concurrency: the next step of the sweep raises.\<close>

theorem count_mismatch_raises_witness:
  "length (run_config_measurements
      ((init 0 4 5)\<lparr> run_config_measurements := [passing 1, passing 2],
                    concurrencies := [1] \<rparr>))
     \<noteq> length (concurrencies
      ((init 0 4 5)\<lparr> run_config_measurements := [passing 1, passing 2],
                    concurrencies := [1] \<rparr>))
   \<and> (1::nat) \<le> max_concurrency_index
      ((init 0 4 5)\<lparr> run_config_measurements := [passing 1, passing 2],
                    concurrencies := [1] \<rparr>)
   \<and> drive throughput_externals (Sweep 1)
        ((init 0 4 5)\<lparr> run_config_measurements := [passing 1, passing 2],
                      concurrencies := [1] \<rparr>) [passing 4] =
      \<lparr> proposals = [], ending = Raised TritonModelAnalyzerException,
        final = (init 0 4 5)\<lparr> run_config_measurements := [passing 1, passing 2],
                    concurrencies := [1] \<rparr> \<rparr>"
proof -
  let ?s = "(init 0 4 5)\<lparr> run_config_measurements := [passing 1, passing 2],
                    concurrencies := [1] \<rparr> :: rcm concurrency_search"
  have a: "length (run_config_measurements ?s) \<noteq> length (concurrencies ?s)" by simp
  have b: "(1::nat) \<le> max_concurrency_index ?s" by (simp add: init_def)
  show ?thesis
    using count_mismatch_raises[OF a b, of throughput_externals "[passing 4]"] a b by simp
qed




subsection \<open>The number of proposals\<close>

lemma determine_next_binary_concurrency_config:
  assumes "determine_next_binary_concurrency E s = Inr (c, s')"
  shows "max_concurrency_index s' = max_concurrency_index s
       \<and> max_binary_search_steps s' = max_binary_search_steps s"
  using assms
  by (auto simp: determine_next_binary_concurrency_def
      split: sum.splits option.splits if_splits)

lemma was_constraint_violated_config:
  assumes "was_constraint_violated E s = Inr (b, s')"
  shows "max_concurrency_index s' = max_concurrency_index s
       \<and> max_binary_search_steps s' = max_binary_search_steps s"
  using assms
  by (auto simp: was_constraint_violated_def
      split: sum.splits option.splits if_splits scan.splits)

lemma binary_loop_yield:
  assumes "binary_loop E s n = (Yield c, pos, s')"
  shows "(\<exists>k < n. pos = Binary k)
       \<and> max_concurrency_index s' = max_concurrency_index s
       \<and> max_binary_search_steps s' = max_binary_search_steps s"
  using assms
proof (induction n arbitrary: s)
  case 0
  then show ?case by simp
next
  case (Suc n)
  from Suc.prems obtain c1 s1 where d: "determine_next_binary_concurrency E s = Inr (c1, s1)"
    by (auto split: sum.splits)
  note cfg = determine_next_binary_concurrency_config[OF d]
  from Suc.prems d obtain l where l: "py_index (concurrencies s1) (- 1) = Inr l"
    by (auto split: sum.splits)
  show ?case
  proof (cases "c1 = l")
    case True
    then have "binary_loop E s1 n = (Yield c, pos, s')" using Suc.prems d l by simp
    from Suc.IH[OF this] cfg show ?thesis by auto
  next
    case False
    then show ?thesis using Suc.prems d l cfg by auto
  qed
qed

lemma after_sweep_yield:
  assumes "after_sweep E s = (Yield c, pos, s')"
  shows "(\<exists>k < max_binary_search_steps s. pos = Binary k)
       \<and> max_concurrency_index s' = max_concurrency_index s
       \<and> max_binary_search_steps s' = max_binary_search_steps s"
proof -
  from assms obtain s1 where w: "was_constraint_violated E s = Inr (True, s1)"
    and b: "perform_binary_concurrency_search E s1 = (Yield c, pos, s')"
    by (auto simp: after_sweep_def split: sum.splits bool.splits if_splits)
  note cfg = was_constraint_violated_config[OF w]
  from b have "binary_loop E (s1\<lparr> concurrencies := concurrencies s1 @ [last_failing_concurrency s1] \<rparr>)
      (max_binary_search_steps s1) = (Yield c, pos, s')"
    by (simp add: perform_binary_concurrency_search_def)
  from binary_loop_yield[OF this] cfg show ?thesis by simp
qed

lemma resume_yield:
  assumes "resume E pos s = (Yield c, pos', s')"
  shows "proposals_left pos' s' < proposals_left pos s
       \<and> max_concurrency_index s' = max_concurrency_index s
       \<and> max_binary_search_steps s' = max_binary_search_steps s"
proof (cases pos)
  case (Sweep i)
  show ?thesis
  proof (cases "i < max_concurrency_index s + 1 \<and> should_continue_concurrency_sweep E s = Inr True")
    case True
    then show ?thesis using assms Sweep by auto
  next
    case False
    then have "after_sweep E s = (Yield c, pos', s')"
      using assms Sweep by (auto split: sum.splits bool.splits if_splits)
    from after_sweep_yield[OF this] show ?thesis using Sweep by auto
  qed
next
  case (Binary n)
  then have "binary_loop E s n = (Yield c, pos', s')" using assms by simp
  from binary_loop_yield[OF this] show ?thesis using Binary by auto
next
  case Finished
  then show ?thesis using assms by simp
qed

lemma add_run_config_measurement_left:
  "proposals_left pos (add_run_config_measurement s m) = proposals_left pos s"
  by (cases pos) (simp_all add: add_run_config_measurement_def)

lemma drive_proposals_bound:
  "length (proposals (drive E pos s measurements)) \<le> proposals_left pos s"
proof (induction measurements arbitrary: pos s)
  case Nil
  show ?case
  proof (cases "resume E pos s")
    case (fields out pos' s')
    then show ?thesis using resume_yield[of E pos s _ pos' s']
      by (cases out) auto
  qed
next
  case (Cons m ms)
  show ?case
  proof (cases "resume E pos s")
    case (fields out pos' s')
    show ?thesis
    proof (cases out)
      case (Yield c)
      with fields have r: "resume E pos s = (Yield c, pos', s')" by simp
      have "proposals_left pos' (add_run_config_measurement s' m) < proposals_left pos s"
        using resume_yield[OF r] by (simp add: add_run_config_measurement_left)
      moreover have "length (proposals (drive E pos' (add_run_config_measurement s' m) ms))
          \<le> proposals_left pos' (add_run_config_measurement s' m)"
        by (rule Cons.IH)
      ultimately show ?thesis using r by (simp add: Let_def)
    next
      case StopIteration
      then show ?thesis using fields by simp
    next
      case (Raise e)
      then show ?thesis using fields by simp
    qed
  qed
qed

text \<open>
  Claim C6.  For a search whose minimum index is at most its maximum index, whatever
  the constants and the comparison are and whatever measurements the caller adds, one
  after each concurrency it is handed, the number of concurrencies handed out is at
  most (max index - min index + 1) + max binary search steps + 1.
\<close>

theorem proposal_count_bound:
  assumes "min_concurrency_index s \<le> max_concurrency_index s"
  shows "int (length (proposals (search_concurrencies E s measurements)))
      \<le> (int (max_concurrency_index s) - int (min_concurrency_index s) + 1)
          + int (max_binary_search_steps s) + 1"
proof -
  have "length (proposals (search_concurrencies E s measurements))
      \<le> (max_concurrency_index s + 1 - min_concurrency_index s) + max_binary_search_steps s"
    using drive_proposals_bound[of E "Sweep (min_concurrency_index s)" s measurements]
    by (simp add: search_concurrencies_def)
  then show ?thesis using assms by linarith
qed

text \<open>
  A run from 1 to 16 with five steps of binary search: the sweep proposes five
  concurrencies, the fifth fails its constraint, and the binary search proposes three
  more; eight are within the bound of eleven.
\<close>

theorem proposal_count_bound_witness:
  "min_concurrency_index (init 0 4 5 :: rcm concurrency_search)
     \<le> max_concurrency_index (init 0 4 5 :: rcm concurrency_search)
   \<and> proposals (search_concurrencies throughput_externals (init 0 4 5)
        [passing 1, passing 2, passing 4, passing 4, failing 4, passing 3, failing 1, passing 7])
       = [1, 2, 4, 8, 16, 12, 14, 13]
   \<and> int (length (proposals (search_concurrencies throughput_externals (init 0 4 5)
        [passing 1, passing 2, passing 4, passing 4, failing 4, passing 3, failing 1, passing 7])))
       \<le> (int (max_concurrency_index (init 0 4 5 :: rcm concurrency_search))
            - int (min_concurrency_index (init 0 4 5 :: rcm concurrency_search)) + 1)
          + int (max_binary_search_steps (init 0 4 5 :: rcm concurrency_search)) + 1"
proof -
  have h: "min_concurrency_index (init 0 4 5 :: rcm concurrency_search)
     \<le> max_concurrency_index (init 0 4 5 :: rcm concurrency_search)"
    by (simp add: init_def)
  have e: "proposals (search_concurrencies throughput_externals (init 0 4 5)
        [passing 1, passing 2, passing 4, passing 4, failing 4, passing 3, failing 1, passing 7])
       = [1, 2, 4, 8, 16, 12, 14, 13]"
    by code_simp
  from h e proposal_count_bound[OF h, of throughput_externals
        "[passing 1, passing 2, passing 4, passing 4, failing 4, passing 3, failing 1, passing 7]"]
  show ?thesis by (intro conjI)
qed

subsection \<open>The sweep on the examples of the spec\<close>

lemmas sweep_defs = search_concurrencies_def init_def should_continue_concurrency_sweep_def
  check_measurement_count_def are_minimum_tries_reached_def has_objective_gain_saturated_def
  calculate_gain_def first_rcm_of_def get_best_rcm_def pruned_rcms_def py_slice_neg_def
  py_index_def add_run_config_measurement_def List.map_filter_simps

lemmas boundary_defs = after_sweep_def was_constraint_violated_def
  at_constraint_failure_boundary_def perform_binary_concurrency_search_def
  determine_next_binary_concurrency_def

lemmas throughput_defs = throughput_externals_def fractional_gain_def passing_def failing_def
  py_max_def

text \<open>
  The run of claim C1: exponents 0 to 4, four consecutive tries, a minimum gain of 0.05,
  and the throughputs 1, 2, 4, 4 fed back.  The last four measurements are all four, so
  the measurement four steps back is the first one and the gain is 3 / 2.5 = 1.2: the
  sweep goes on, 16 is proposed, and five concurrencies are proposed, not four.
\<close>

theorem sweep_proposes_16_after_1_2_4_4:
  "proposals (search_concurrencies throughput_externals (init 0 4 5)
      [passing 1, passing 2, passing 4, passing 4]) = [1, 2, 4, 8, 16]
   \<and> length (proposals (search_concurrencies throughput_externals (init 0 4 5)
      [passing 1, passing 2, passing 4, passing 4])) \<noteq> 4"
  by (simp add: sweep_defs throughput_defs)

text \<open>
  Claim C1, as amended.  With exponents 0 to 4 and four consecutive tries, when four
  passing measurements are fed back for 1, 2, 4, 8 and the comparison of the first with
  the best of the four is at least the minimum gain (as it is for the throughputs
  1, 2, 4, 4), the sweep proposes 16 as well.  After a fifth passing measurement the
  range is used up, no constraint was violated, the binary search is not entered, and
  the proposals are the five concurrencies 1, 2, 4, 8, 16.
\<close>

theorem sweep_continues_after_gain:
  assumes "THROUGHPUT_MINIMUM_CONSECUTIVE_CONCURRENCY_TRIES E = 4"
    and "THROUGHPUT_MINIMUM_GAIN E \<le> compare_measurements E a (py_max (rcm_gt E) a [b, c, d])"
    and "is_passing_constraints E a" and "is_passing_constraints E b"
    and "is_passing_constraints E c" and "is_passing_constraints E d"
    and "is_passing_constraints E e"
  shows "search_concurrencies E (init 0 4 steps) [Some a, Some b, Some c, Some d] =
      \<lparr> proposals = [1, 2, 4, 8, 16], ending = Awaiting_Measurement,
        final = (init 0 4 steps)
          \<lparr> run_config_measurements := [Some a, Some b, Some c, Some d],
            concurrencies := [1, 2, 4, 8, 16] \<rparr> \<rparr>
    \<and> search_concurrencies E (init 0 4 steps) [Some a, Some b, Some c, Some d, Some e] =
      \<lparr> proposals = [1, 2, 4, 8, 16], ending = Exhausted,
        final = (init 0 4 steps)
          \<lparr> run_config_measurements := [Some a, Some b, Some c, Some d, Some e],
            concurrencies := [1, 2, 4, 8, 16] \<rparr> \<rparr>
    \<and> was_constraint_violated E ((init 0 4 steps)
          \<lparr> run_config_measurements := [Some a, Some b, Some c, Some d, Some e],
            concurrencies := [1, 2, 4, 8, 16] \<rparr>) =
        Inr (False, (init 0 4 steps)
          \<lparr> run_config_measurements := [Some a, Some b, Some c, Some d, Some e],
            concurrencies := [1, 2, 4, 8, 16] \<rparr>)"
  using assms by (simp add: sweep_defs boundary_defs upt_rec)

text \<open>The throughputs 1, 2, 4, 4 and then 4 again: five proposals and no binary search.\<close>

theorem sweep_continues_after_gain_witness:
  "search_concurrencies throughput_externals (init 0 4 5)
      [passing 1, passing 2, passing 4, passing 4, passing 4] =
      \<lparr> proposals = [1, 2, 4, 8, 16], ending = Exhausted,
        final = (init 0 4 5)
          \<lparr> run_config_measurements := [passing 1, passing 2, passing 4, passing 4, passing 4],
            concurrencies := [1, 2, 4, 8, 16] \<rparr> \<rparr>"
proof -
  let ?E = throughput_externals
  let ?m = "\<lambda>t. \<lparr> throughput = t, passes_constraints = True \<rparr>"
  have n: "THROUGHPUT_MINIMUM_CONSECUTIVE_CONCURRENCY_TRIES ?E = 4"
    by (simp add: throughput_externals_def)
  have g: "THROUGHPUT_MINIMUM_GAIN ?E
      \<le> compare_measurements ?E (?m 1) (py_max (rcm_gt ?E) (?m 1) [?m 2, ?m 4, ?m 4])"
    by (simp add: throughput_defs)
  have p: "is_passing_constraints ?E (?m t)" for t
    by (simp add: throughput_externals_def)
  show ?thesis
    using sweep_continues_after_gain[OF n g p p p p p [of 4], of 5] by (simp add: passing_def)
qed




subsection \<open>The constraint boundary\<close>

lemma py_index_nat:
  "i < length xs \<Longrightarrow> py_index xs (int i) = Inr (xs ! i)"
  by (simp add: py_index_def)

lemma py_index_pred:
  "0 < i \<Longrightarrow> i < length xs \<Longrightarrow> py_index xs (int i - 1) = Inr (xs ! (i - 1))"
  by (simp add: py_index_def nat_diff_distrib')

text \<open>
  Within the list, an index is at a boundary when both measurements are present, the
  later one fails and the earlier one passes.
\<close>

lemma at_constraint_failure_boundary_iff:
  assumes "0 < i" and "i < length (run_config_measurements s)"
  shows "at_constraint_failure_boundary E s (int i) =
     Inr (\<exists>later earlier.
            run_config_measurements s ! i = Some later
          \<and> run_config_measurements s ! (i - 1) = Some earlier
          \<and> \<not> is_passing_constraints E later \<and> is_passing_constraints E earlier)"
  using assms
  by (simp add: at_constraint_failure_boundary_def py_index_nat py_index_pred
      split: option.splits)

lemma scan_for_boundary_none:
  assumes "\<forall>j \<in> set js. at_constraint_failure_boundary E s (int j) = Inr False"
  shows "scan_for_boundary E s i js = Inr (No_Boundary (if js = [] then i else Some (last js)))"
  using assms by (induction js arbitrary: i) auto

lemma scan_for_boundary_first:
  assumes "\<forall>j \<in> set js. at_constraint_failure_boundary E s (int j) = Inr False"
    and "at_constraint_failure_boundary E s (int k) = Inr True"
  shows "scan_for_boundary E s i (js @ k # ks) = Inr (Boundary_At k)"
  using assms by (induction js arbitrary: i) auto

lemma rev_upt_split:
  assumes "2 \<le> i" and "i < n"
  shows "rev [2 ..< n] = rev [Suc i ..< n] @ i # rev [2 ..< i]"
proof -
  have "[2 ..< n] = [2 ..< i] @ [i ..< n]"
    using assms upt_add_eq_append[of 2 i "n - i"] by simp
  moreover have "[i ..< n] = i # [Suc i ..< n]"
    using assms by (simp add: upt_conv_Cons)
  ultimately have "[2 ..< n] = [2 ..< i] @ i # [Suc i ..< n]" by simp
  then show ?thesis by simp
qed

text \<open>
  From index 2 on the scan does what claim C2 says: the last boundary in the list sets
  the two bounds.
\<close>

lemma interior_boundary_found:
  assumes "2 \<le> i" and "i < length (run_config_measurements s)"
    and "length (concurrencies s) = length (run_config_measurements s)"
    and "at_constraint_failure_boundary E s (int i) = Inr True"
    and "\<forall>j. i < j \<and> j < length (run_config_measurements s) \<longrightarrow>
           at_constraint_failure_boundary E s (int j) = Inr False"
  shows "was_constraint_violated E s =
     Inr (True, s\<lparr> last_failing_concurrency := concurrencies s ! i,
                   last_passing_concurrency := concurrencies s ! (i - 1) \<rparr>)"
proof -
  let ?n = "length (run_config_measurements s)"
  have "\<forall>j \<in> set (rev [Suc i ..< ?n]). at_constraint_failure_boundary E s (int j) = Inr False"
    using assms(5) by auto
  then have "scan_for_boundary E s None (rev [2 ..< ?n]) = Inr (Boundary_At i)"
    using scan_for_boundary_first[OF _ assms(4)] rev_upt_split[OF assms(1,2)] by simp
  moreover have "py_index (concurrencies s) (int i) = Inr (concurrencies s ! i)"
    using assms by (simp add: py_index_nat)
  moreover have "py_index (concurrencies s) (int i - 1) = Inr (concurrencies s ! (i - 1))"
    using assms by (simp add: py_index_pred)
  ultimately show ?thesis by (simp add: was_constraint_violated_def)
qed

text \<open>A boundary between the first two measurements is not looked for.\<close>

lemma first_pair_not_scanned:
  assumes "run_config_measurements s ! 0 = Some earlier" and "is_passing_constraints E earlier"
    and "run_config_measurements s \<noteq> []"
    and "\<forall>j. 2 \<le> j \<and> j < length (run_config_measurements s) \<longrightarrow>
           at_constraint_failure_boundary E s (int j) = Inr False"
  shows "was_constraint_violated E s = Inr (False, s)"
proof -
  let ?n = "length (run_config_measurements s)"
  have "\<forall>j \<in> set (rev [2 ..< ?n]). at_constraint_failure_boundary E s (int j) = Inr False"
    using assms(4) by auto
  from scan_for_boundary_none[OF this]
  have "\<exists>k. scan_for_boundary E s None (rev [2 ..< ?n]) = Inr (No_Boundary k)" by blast
  moreover have "py_index (run_config_measurements s) 0 = Inr (Some earlier)"
    using assms(1,3) by (simp add: py_index_def)
  ultimately show ?thesis using assms(2) by (auto simp: was_constraint_violated_def)
qed

text \<open>What the fallback does when the first measurement fails and no boundary was found.\<close>

lemma first_failing_fallback:
  assumes "run_config_measurements s ! 0 = Some rcm" and "\<not> is_passing_constraints E rcm"
    and "run_config_measurements s \<noteq> []"
    and "length (concurrencies s) = length (run_config_measurements s)"
    and "\<forall>j. 2 \<le> j \<and> j < length (run_config_measurements s) \<longrightarrow>
           at_constraint_failure_boundary E s (int j) = Inr False"
  shows "was_constraint_violated E s =
     (if length (run_config_measurements s) \<le> 2 then Inl UnboundLocalError
      else Inr (True, s\<lparr> last_failing_concurrency := concurrencies s ! 2,
                         last_passing_concurrency := 0 \<rparr>))"
proof -
  let ?n = "length (run_config_measurements s)"
  have "\<forall>j \<in> set (rev [2 ..< ?n]). at_constraint_failure_boundary E s (int j) = Inr False"
    using assms(5) by auto
  from scan_for_boundary_none[OF this, of None]
  have sc: "scan_for_boundary E s None (rev [2 ..< ?n]) =
      Inr (No_Boundary (if ?n \<le> 2 then None else Some 2))"
    by (auto simp: last_rev hd_upt)
  have f: "py_index (run_config_measurements s) 0 = Inr (Some rcm)"
    using assms(1,3) by (simp add: py_index_def)
  show ?thesis
  proof (cases "?n \<le> 2")
    case True
    then show ?thesis using sc f assms(2) by (simp add: was_constraint_violated_def)
  next
    case False
    then have "py_index (concurrencies s) (int 2) = Inr (concurrencies s ! 2)"
      using assms(4) by (simp add: py_index_def)
    then show ?thesis using False sc f assms(2) by (simp add: was_constraint_violated_def)
  qed
qed

text \<open>
  Claim C2 says that a failing measurement at any position i from 1 on, after a passing
  one, starts the binary search between the two concurrencies.  The loop of
  \<^verbatim>\<open>_was_constraint_violated\<close> stops at index 2, so for i = 1 the code does not do
  this: after a passing first and a failing second measurement, no violation is
  reported and the search ends without a binary search, in a sweep of two
  concurrencies and in a sweep that stops after four.
\<close>

theorem first_pair_boundary_missed:
  "was_constraint_violated throughput_externals
     ((init 0 1 5)\<lparr> run_config_measurements := [passing 1, failing 2], concurrencies := [1, 2] \<rparr>)
    = Inr (False, (init 0 1 5)\<lparr> run_config_measurements := [passing 1, failing 2],
                                  concurrencies := [1, 2] \<rparr>)
   \<and> search_concurrencies throughput_externals (init 0 1 5) [passing 1, failing 2]
    = \<lparr> proposals = [1, 2], ending = Exhausted,
        final = (init 0 1 5)\<lparr> run_config_measurements := [passing 1, failing 2],
                               concurrencies := [1, 2] \<rparr> \<rparr>
   \<and> search_concurrencies throughput_externals (init 0 4 5)
        [passing 1, failing 1, failing 1, failing 1]
    = \<lparr> proposals = [1, 2, 4, 8], ending = Exhausted,
        final = (init 0 4 5)\<lparr> run_config_measurements :=
                                 [passing 1, failing 1, failing 1, failing 1],
                               concurrencies := [1, 2, 4, 8] \<rparr> \<rparr>"
  by (simp add: sweep_defs boundary_defs throughput_defs upt_rec)

text \<open>
  Claim C4 says that a failing first measurement without an interior boundary gives
  the bounds 0 and the first concurrency.  The fallback reads the loop variable left
  by the loop instead: with three failing measurements at 1, 2, 4 the failing bound
  becomes 4, the third concurrency, and with a single failing measurement the variable
  is unbound and the search ends with UnboundLocalError.
\<close>

theorem first_failure_reads_loop_variable:
  "was_constraint_violated throughput_externals
     ((init 0 2 5)\<lparr> run_config_measurements := [failing 1, failing 2, failing 4],
                    concurrencies := [1, 2, 4] \<rparr>)
    = Inr (True, (init 0 2 5)\<lparr> run_config_measurements := [failing 1, failing 2, failing 4],
                    concurrencies := [1, 2, 4], last_failing_concurrency := 4,
                    last_passing_concurrency := 0 \<rparr>)
   \<and> was_constraint_violated throughput_externals
     ((init 0 0 5)\<lparr> run_config_measurements := [failing 1], concurrencies := [1] \<rparr>)
    = Inl UnboundLocalError
   \<and> ending (search_concurrencies throughput_externals (init 0 0 5) [failing 1])
    = Raised UnboundLocalError"
  by (simp add: sweep_defs boundary_defs throughput_defs upt_rec)

section \<open>Properties of the generator's two phases\<close>

lemma is_automatic_search_mode_iff:
  "is_automatic_search_mode models \<longleftrightarrow> (\<forall>model \<in> set models. \<not> specifies_parameters model)"
  by (induction models) auto

text \<open>
  Claim C8.  The generator is in automatic search mode exactly when no model has model
  config parameters.  In what \<^verbatim>\<open>get_configs\<close> yields, every configuration of the brute
  search comes before every configuration of the binary search: the brute search's
  configurations are yielded first, all of them and in their order, and what follows
  is the binary search over the top results in automatic search mode, and nothing
  otherwise.
\<close>

theorem brute_search_before_binary_search:
  "(is_automatic_search_mode models \<longleftrightarrow> (\<forall>model \<in> set models. \<not> specifies_parameters model))
   \<and> (\<forall>i j. i < length (get_configs models brute_search binary_search)
          \<and> j < length (get_configs models brute_search binary_search)
          \<and> fst (get_configs models brute_search binary_search ! i) = Brute_Search
          \<and> fst (get_configs models brute_search binary_search ! j) = Binary_Search
        \<longrightarrow> i < j)
   \<and> take (length brute_search) (get_configs models brute_search binary_search)
        = map (Pair Brute_Search) brute_search
   \<and> drop (length brute_search) (get_configs models brute_search binary_search)
        = (if \<forall>model \<in> set models. \<not> specifies_parameters model
           then map (Pair Binary_Search) binary_search else [])"
proof -
  define rest where "rest =
      (if \<forall>model \<in> set models. \<not> specifies_parameters model
       then map (Pair Binary_Search) binary_search else [])"
  define t where "t = get_configs models brute_search binary_search"
  have t: "t = map (Pair Brute_Search) brute_search @ rest"
    by (simp add: t_def rest_def get_configs_def is_automatic_search_mode_iff)
  have rest: "fst p = Binary_Search" if "p \<in> set rest" for p
    using that by (auto simp: rest_def split: if_splits)
  have order: "i < j"
    if h: "i < length t" "j < length t" "fst (t ! i) = Brute_Search" "fst (t ! j) = Binary_Search"
    for i j
  proof (rule ccontr)
    assume "\<not> i < j"
    then have ji: "j \<le> i" by simp
    have "i < length brute_search"
    proof (rule ccontr)
      assume n: "\<not> i < length brute_search"
      then have "t ! i = rest ! (i - length brute_search)"
        using t by (simp add: nth_append)
      moreover have "i - length brute_search < length rest"
        using n h(1) t by simp
      ultimately have "t ! i \<in> set rest" by simp
      then have "fst (t ! i) = Binary_Search" by (rule rest)
      with h(3) show False by simp
    qed
    with ji have "j < length brute_search" by simp
    then have "t ! j = (Brute_Search, brute_search ! j)" using t by (simp add: nth_append)
    with h(4) show False by simp
  qed
  have a: "is_automatic_search_mode models \<longleftrightarrow> (\<forall>model \<in> set models. \<not> specifies_parameters model)"
    by (rule is_automatic_search_mode_iff)
  have b: "\<forall>i j. i < length t \<and> j < length t \<and> fst (t ! i) = Brute_Search
      \<and> fst (t ! j) = Binary_Search \<longrightarrow> i < j"
    using order by blast
  have c: "take (length brute_search) t = map (Pair Brute_Search) brute_search"
    using t by simp
  have d: "drop (length brute_search) t = rest"
    using t by simp
  from a b c d show ?thesis unfolding t_def rest_def by (intro conjI)
qed

text \<open>
  Two models without parameters (one has none, one an empty dictionary): the refinement
  follows the brute search.  One model with a parameter: the brute search only.
\<close>

theorem brute_search_before_binary_search_witness:
  "get_configs [\<lparr> model_config_parameters = None \<rparr>,
                \<lparr> model_config_parameters = Some ([] :: (string \<times> nat) list) \<rparr>]
      [''b1'', ''b2''] [''r1'']
     = [(Brute_Search, ''b1''), (Brute_Search, ''b2''), (Binary_Search, ''r1'')]
   \<and> drop 2 (get_configs [\<lparr> model_config_parameters = None \<rparr>,
                \<lparr> model_config_parameters = Some [(''max_batch_size'', 8 :: nat)] \<rparr>]
      [''b1'', ''b2''] [''r1''])
     = []"
proof -
  let ?auto = "[\<lparr> model_config_parameters = None \<rparr>,
                \<lparr> model_config_parameters = Some ([] :: (string \<times> nat) list) \<rparr>]"
  let ?manual = "[\<lparr> model_config_parameters = None \<rparr>,
                \<lparr> model_config_parameters = Some [(''max_batch_size'', 8 :: nat)] \<rparr>]"
  have a: "\<forall>model \<in> set ?auto. \<not> specifies_parameters model"
    by (simp add: specifies_parameters_def)
  have m: "\<not> (\<forall>model \<in> set ?manual. \<not> specifies_parameters model)"
    by (simp add: specifies_parameters_def)
  have l: "length [''b1'', ''b2''] = 2" by simp
  have "is_automatic_search_mode ?auto"
    using brute_search_before_binary_search[of ?auto "[''b1'', ''b2'']" "[''r1'']"] a by blast
  then have 1: "get_configs ?auto [''b1'', ''b2''] [''r1'']
     = [(Brute_Search, ''b1''), (Brute_Search, ''b2''), (Binary_Search, ''r1'')]"
    by (simp add: get_configs_def)
  have "drop (length [''b1'', ''b2'']) (get_configs ?manual [''b1'', ''b2''] [''r1'']) = []"
    using brute_search_before_binary_search[of ?manual "[''b1'', ''b2'']" "[''r1'']"] m
    by presburger
  then have 2: "drop 2 (get_configs ?manual [''b1'', ''b2''] [''r1'']) = []"
    unfolding l .
  from 1 2 show ?thesis by (intro conjI)
qed

section \<open>Properties of the range field\<close>

lemmas range_defs = set_value_def split_range_string_def range_of_dict_def
  config_value_set_value_def new_config_range_numeric_def int_of_string_def strip_def
  is_space_def digit_of_def string_of_int_def

text \<open>
  Claim C9.  On a new field, of any element type: \<^verbatim>\<open>set_value("2:10:2")\<close> returns
  success and stores the list \<^verbatim>\<open>["2:10:2"]\<close>; \<^verbatim>\<open>set_value({"start": 5, "stop": 2})\<close>
  returns a failure status, for start exceeding stop, raises nothing and leaves the
  field as it was; and \<^verbatim>\<open>set_value\<close> of a list, such as \<^verbatim>\<open>[1, 2, 4]\<close>, returns success
  and stores the list unchanged.
\<close>

theorem range_normalizer_examples:
  "set_value (new_config_range_numeric ty) (PyStr ''2:10:2'')
     = Inr (CONFIG_PARSER_SUCCESS, (new_config_range_numeric ty)\<lparr> stored := PyList [PyStr ''2:10:2''] \<rparr>)
   \<and> set_value (new_config_range_numeric ty) (PyDict [(PyStr ''start'', PyInt 5), (PyStr ''stop'', PyInt 2)])
     = Inr (CONFIG_PARSER_FAILURE Start_Greater_Than_Stop, new_config_range_numeric ty)
   \<and> set_value (new_config_range_numeric ty) (PyList [PyInt 1, PyInt 2, PyInt 4])
     = Inr (CONFIG_PARSER_SUCCESS,
            (new_config_range_numeric ty)\<lparr> stored := PyList [PyInt 1, PyInt 2, PyInt 4] \<rparr>)
   \<and> set_value (new_config_range_numeric ty) (PyList vs)
     = Inr (CONFIG_PARSER_SUCCESS, (new_config_range_numeric ty)\<lparr> stored := PyList vs \<rparr>)"
  by (simp add: range_defs)

end
